theory Spec2Isabelle
  imports Complex_Main "HOL-Library.Sublist"
begin

section \<open>Strings as the Python and JavaScript code uses them\<close>

text \<open>
  \<^verbatim>\<open>str.lower()\<close> on the ASCII letters: \<open>A\<close>..\<open>Z\<close> go to \<open>a\<close>..\<open>z\<close>, every other
  character is left as it is. The keyword and locality tables of the program are ASCII.
\<close>

definition ascii_uppercase :: string where
  "ascii_uppercase = ''ABCDEFGHIJKLMNOPQRSTUVWXYZ''"

definition ascii_lowercase :: string where
  "ascii_lowercase = ''abcdefghijklmnopqrstuvwxyz''"

definition lower_char :: "char \<Rightarrow> char" where
  "lower_char c =
     (case map_of (zip ascii_uppercase ascii_lowercase) c of Some l \<Rightarrow> l | None \<Rightarrow> c)"

definition str_lower :: "string \<Rightarrow> string" where
  "str_lower s = map lower_char s"

text \<open>Python's \<^verbatim>\<open>w in s\<close> on strings: \<open>w\<close> occurs in \<open>s\<close> as a contiguous run.\<close>

fun str_in :: "string \<Rightarrow> string \<Rightarrow> bool" where
  "str_in w [] = (w = [])"
| "str_in w (c # cs) = (prefix w (c # cs) \<or> str_in w cs)"

text \<open>\<^verbatim>\<open>sep.join(parts)\<close>, the same in Python and JavaScript.\<close>

fun join :: "string \<Rightarrow> string list \<Rightarrow> string" where
  "join sep [] = []"
| "join sep [x] = x"
| "join sep (x # y # ys) = x @ sep @ join sep (y # ys)"


section \<open>Query preprocessor: \<^verbatim>\<open>detect_detail_level\<close> (query_preprocessor.py)\<close>

text \<open>
  \<^verbatim>\<open>
  def detect_detail_level(cls, query: str) -> str:
      query_lower = query.lower()
      if any(word in query_lower for word in
             ["budget", "lakh", "crore", "price", "cost", "afford", "can i buy"]):
          return "detailed"
      # ... rest of the logic ...
  \<close>
  The rules after the budget rule are not part of the excerpt; they are the parameter
  \<open>rest\<close>, which receives the query and its lower-cased form.
\<close>

definition budget_keywords :: "string list" where
  "budget_keywords =
     [''budget'', ''lakh'', ''crore'', ''price'', ''cost'', ''afford'', ''can i buy'']"

definition detect_detail_level :: "(string \<Rightarrow> string \<Rightarrow> string) \<Rightarrow> string \<Rightarrow> string" where
  "detect_detail_level rest query =
     (let query_lower = str_lower query in
      if list_ex (\<lambda>word. str_in word query_lower) budget_keywords
      then ''detailed''
      else rest query query_lower)"


section \<open>Query endpoint: vector search and location post-filter (main.py)\<close>

text \<open>
  A search result is a Python dict; the filter reads only its \<^verbatim>\<open>'text'\<close> entry, through
  \<^verbatim>\<open>result.get('text', '')\<close>, so the entry may be absent. Any further entries live in the
  record extension.
\<close>

record search_result =
  res_text :: "string option"

record query_request =
  request_query :: string
  request_top_k :: int

text \<open>The keyword arguments of the call \<^verbatim>\<open>vector_store.search(query_embedding=..., top_k=...)\<close>.\<close>

record search_call =
  call_query_embedding :: "real list"
  call_top_k :: int

text \<open>
  \<^verbatim>\<open>
  results = await vector_store.search(
      query_embedding=query_embedding,
      top_k=max(request.top_k, 10)  # Get more for filtering
  )
  \<close>
\<close>

definition vector_search_call :: "query_request \<Rightarrow> real list \<Rightarrow> search_call" where
  "vector_search_call request query_embedding =
     \<lparr>call_query_embedding = query_embedding, call_top_k = max (request_top_k request) 10\<rparr>"

text \<open>
  \<^verbatim>\<open>
  extracted_locations = query_analysis.get("locations", [])
  if extracted_locations and len(extracted_locations) > 0:
      location_lower = [loc.lower() for loc in extracted_locations]
      filtered_results = []
      for result in results:
          result_text = result.get('text', '').lower()
          if any(loc in result_text for loc in location_lower):
              filtered_results.append(result)
      if filtered_results:
          results = filtered_results
  \<close>
\<close>

definition result_text :: "'a search_result_scheme \<Rightarrow> string" where
  "result_text result = str_lower (case res_text result of None \<Rightarrow> [] | Some t \<Rightarrow> t)"

definition location_filter ::
  "string list \<Rightarrow> 'a search_result_scheme list \<Rightarrow> 'a search_result_scheme list" where
  "location_filter extracted_locations results =
     (if extracted_locations \<noteq> [] \<and> length extracted_locations > 0 then
        let location_lower = map str_lower extracted_locations;
            filtered_results =
              filter (\<lambda>result. list_ex (\<lambda>loc. str_in loc (result_text result)) location_lower)
                results
        in if filtered_results \<noteq> [] then filtered_results else results
      else results)"

text \<open>The retrieval step of the endpoint: the search, then the filter.\<close>

definition retrieve_results ::
  "(search_call \<Rightarrow> 'a search_result_scheme list) \<Rightarrow> query_request \<Rightarrow> real list \<Rightarrow>
     string list \<Rightarrow> 'a search_result_scheme list" where
  "retrieve_results vector_store_search request query_embedding extracted_locations =
     location_filter extracted_locations
       (vector_store_search (vector_search_call request query_embedding))"


section \<open>Vector store: table \<^verbatim>\<open>real_estate\<close> and function \<^verbatim>\<open>match_real_estate\<close> (document.sql)\<close>

text \<open>
  \<^verbatim>\<open>
  create table real_estate (
    id bigserial primary key,
    content text,
    embedding vector(1536)
  );
  \<close>
  The ingestion script writes both \<^verbatim>\<open>content\<close> and \<^verbatim>\<open>embedding\<close> of every row. The sequence
  behind \<^verbatim>\<open>bigserial\<close> is part of the database state. A vector is a list of reals; its
  dimension, 1536 for the embeddings of \<^verbatim>\<open>text-embedding-ada-002\<close>, is not tracked.
\<close>

type_synonym vector = "real list"

record row =
  row_id :: int
  row_content :: string
  row_embedding :: vector

record database =
  real_estate :: "row list"
  real_estate_id_seq :: int

record match =
  match_id :: int
  match_content :: string
  similarity :: real

text \<open>
  \<^verbatim>\<open>
  select real_estate.id, real_estate.content,
         1 - (real_estate.embedding <=> query_embedding) as similarity
  from real_estate
  where 1 - (real_estate.embedding <=> query_embedding) > match_threshold
  order by similarity desc
  limit match_count;
  \<close>
  The operator \<^verbatim>\<open><=>\<close> is pgvector's cosine distance; it is the parameter
  \<open>cosine_distance\<close>, with values in the reals. PostgreSQL rejects a negative \<^verbatim>\<open>LIMIT\<close>.
  Rows of equal similarity come out in table order here; PostgreSQL promises no order
  among them.
\<close>

datatype sql_error = NegativeLimit

definition match_real_estate ::
  "(vector \<Rightarrow> vector \<Rightarrow> real) \<Rightarrow> database \<Rightarrow> vector \<Rightarrow> real \<Rightarrow> int \<Rightarrow>
     sql_error + match list" where
  "match_real_estate cosine_distance db query_embedding match_threshold match_count =
     (if match_count < 0 then Inl NegativeLimit
      else Inr (take (nat match_count)
        (sort_key (\<lambda>m. - similarity m)
          (map (\<lambda>r. \<lparr>match_id = row_id r, match_content = row_content r,
                     similarity = 1 - cosine_distance (row_embedding r) query_embedding\<rparr>)
            (filter (\<lambda>r. 1 - cosine_distance (row_embedding r) query_embedding > match_threshold)
              (real_estate db))))))"


section \<open>The JavaScript retrieval path (embedding.js, similaritySearch.js,
  documentSemanticSearch.js and the Express server)\<close>

text \<open>
  The OpenAI and Supabase clients of config.js are outside the program. A call that throws
  is \<open>Inl\<close>; \<open>supabase_reachable\<close> says whether a request reaches the database at all.
\<close>

record message =
  role :: string
  content :: string

datatype js_error = ApiError | TypeError

record services =
  openai_embeddings_create :: "string \<Rightarrow> js_error + vector"
  openai_chat_completions_create :: "message list \<Rightarrow> js_error + message"
  supabase_reachable :: bool
  pgvector_cosine_distance :: "vector \<Rightarrow> vector \<Rightarrow> real"

datatype supabase_error = PostgresError sql_error | FetchError

text \<open>\<^verbatim>\<open>supabase.rpc("match_real_estate", {...})\<close> resolves to \<^verbatim>\<open>{ data, error }\<close>; it does not throw.\<close>

definition supabase_rpc_match_real_estate ::
  "services \<Rightarrow> database \<Rightarrow> vector \<Rightarrow> real \<Rightarrow> int \<Rightarrow> supabase_error + match list" where
  "supabase_rpc_match_real_estate sv db query_embedding match_threshold match_count =
     (if \<not> supabase_reachable sv then Inl FetchError
      else case match_real_estate (pgvector_cosine_distance sv) db
                  query_embedding match_threshold match_count of
             Inl e \<Rightarrow> Inl (PostgresError e)
           | Inr data \<Rightarrow> Inr data)"

text \<open>
  \<^verbatim>\<open>
  export async function matchEmbedding(embedding, threshold = 0.75, matchCount = 2) {
    const { data, error } = await supabase.rpc("match_real_estate", {...});
    if (error) {
      console.error("Error matching embedding:", error);
      return [];
    }
    return data;
  }
  \<close>
\<close>

definition matchEmbedding :: "services \<Rightarrow> database \<Rightarrow> vector \<Rightarrow> real \<Rightarrow> int \<Rightarrow> match list" where
  "matchEmbedding sv db embedding threshold matchCount =
     (case supabase_rpc_match_real_estate sv db embedding threshold matchCount of
        Inl error \<Rightarrow> []
      | Inr data \<Rightarrow> data)"

text \<open>
  \<^verbatim>\<open>generateEmbedding\<close> awaits \<^verbatim>\<open>openai.embeddings.create\<close> with no handler of its own, so a
  failure of the service is thrown to the caller. The vector is what the callers read as
  \<^verbatim>\<open>.data[0].embedding\<close>; a response without it makes that read throw, which is a failure
  too.
\<close>

definition generateEmbedding :: "services \<Rightarrow> string \<Rightarrow> js_error + vector" where
  "generateEmbedding sv text = openai_embeddings_create sv text"

text \<open>What a JavaScript function hands back: a message object, or \<^verbatim>\<open>undefined\<close>.\<close>

datatype reply = Undefined | Reply message

definition systemPrompt :: message where
  "systemPrompt = \<lparr>role = ''system'', content =
     ''You are a helpful Real Estate Assistant mostly looking for properties in Pune City. It is a company invloved in Real Estate industry. If any one ask you any question other than Real Estate, you will reply with 'Let's stay on track'. When providing information, ensure it is accurate and relevant to real estate. Also make sure to add appropriate links to their products for more information. If you are unsure about an answer, it's better to admit it than to provide incorrect information. Also, keep your answers concise and to the point. Currently you only have information about properties in Pune city.''\<rparr>"

text \<open>
  The module-level array \<^verbatim>\<open>const chatMessages = [systemPrompt]\<close> is the state that the
  functions below take and return.
  \<^verbatim>\<open>
  async function getChatCompletions(text, query) {
    chatMessages.push({ role: "user", content: `Content: ${text}. Question: ${query}` });
    try {
      const response = await openai.chat.completions.create({
        model: "gpt-5-nano", messages: chatMessages });
      console.log(response.choices[0].message);
      chatMessages.push(response.choices[0].message);
      return response.choices[0].message;
    } catch (error) {
      console.error("Error during chat completions:", error);
    }
  }
  \<close>
  A function whose \<^verbatim>\<open>catch\<close> block only logs returns \<^verbatim>\<open>undefined\<close>; that is a normal return
  (\<open>Inr\<close>), not an exception.
\<close>

definition initial_chatMessages :: "message list" where
  "initial_chatMessages = [systemPrompt]"

definition getChatCompletions ::
  "services \<Rightarrow> string \<Rightarrow> string \<Rightarrow> message list \<Rightarrow> (js_error + reply) \<times> message list" where
  "getChatCompletions sv text query chatMessages =
     (let chatMessages1 = chatMessages @
            [\<lparr>role = ''user'', content = ''Content: '' @ text @ ''. Question: '' @ query\<rparr>]
      in case openai_chat_completions_create sv chatMessages1 of
           Inl error \<Rightarrow> (Inr Undefined, chatMessages1)
         | Inr response \<Rightarrow> (Inr (Reply response), chatMessages1 @ [response]))"

text \<open>
  \<^verbatim>\<open>
  export const documentSemanticSearch = async (query) => {
    try {
      const queryEmbedding = await generateEmbedding(query);
      const queryVector = queryEmbedding.data[0].embedding;
      const matches = await matchEmbedding(queryVector, 0.75, 5);
      const contents = matches.map((match) => match.content).join("\n---\n");
      const reply = await getChatCompletions(contents, query);
      return reply;
    } catch (error) {
      console.error("Error during semantic search:", error);
    }
  };
  \<close>
\<close>

definition documentSemanticSearch ::
  "services \<Rightarrow> database \<Rightarrow> string \<Rightarrow> message list \<Rightarrow> (js_error + reply) \<times> message list" where
  "documentSemanticSearch sv db query chatMessages =
     (case generateEmbedding sv query of
        Inl error \<Rightarrow> (Inr Undefined, chatMessages)
      | Inr queryVector \<Rightarrow>
          let matches = matchEmbedding sv db queryVector 0.75 5;
              contents = join ''\<newline>---\<newline>'' (map match_content matches)
          in getChatCompletions sv contents query chatMessages)"

text \<open>
  \<^verbatim>\<open>
  app.post("/api/search", async (req, res) => {
    try {
      const { question } = req.body;
      const response = await documentSemanticSearch(question);
      res.json({ content: response.content });
    } catch (error) {
      console.error("Error:", error.message);
      res.status(500).json({ error: "Something went wrong" });
    }
  });
  \<close>
  Reading \<^verbatim>\<open>.content\<close> of \<^verbatim>\<open>undefined\<close> throws a TypeError, which the handler's own
  \<^verbatim>\<open>catch\<close> turns into the 500 response.
\<close>

datatype json_body = ContentBody string | ErrorBody string

record http_response =
  status :: nat
  body :: json_body

definition reply_content :: "reply \<Rightarrow> js_error + string" where
  "reply_content response =
     (case response of Undefined \<Rightarrow> Inl TypeError | Reply m \<Rightarrow> Inr (content m))"

definition api_search ::
  "services \<Rightarrow> database \<Rightarrow> string \<Rightarrow> message list \<Rightarrow> http_response \<times> message list" where
  "api_search sv db question chatMessages =
     (case documentSemanticSearch sv db question chatMessages of (result, chatMessages') \<Rightarrow>
        (case (case result of Inl error \<Rightarrow> Inl error
                            | Inr response \<Rightarrow> reply_content response) of
           Inl error \<Rightarrow> \<lparr>status = 500, body = ErrorBody ''Something went wrong''\<rparr>
         | Inr c \<Rightarrow> \<lparr>status = 200, body = ContentBody c\<rparr>,
         chatMessages'))"


section \<open>Ingestion: splitDocument.js, embedding.js, documentEmbedding.js\<close>

text \<open>
  \<^verbatim>\<open>fetchContentFromFile\<close> reads one file and throws when it does not exist; the files are a
  map from name to content.
\<close>

datatype fs_error = FileNotFound

definition default_fileName :: string where
  "default_fileName = ''documents/ResaleProperty_MockData (1).txt''"

definition fetchContentFromFile :: "(string \<rightharpoonup> string) \<Rightarrow> string \<Rightarrow> fs_error + string" where
  "fetchContentFromFile files fileName =
     (case files fileName of None \<Rightarrow> Inl FileNotFound | Some fileContent \<Rightarrow> Inr fileContent)"

text \<open>
  Modelled from the spec: the text splitter. splitDocument.js builds a
  \<^verbatim>\<open>RecursiveCharacterTextSplitter\<close> of the package \<^verbatim>\<open>@langchain/textsplitters\<close>, whose code
  is not in the repository. The spec says of it: ``Splits a document into fixed-size
  overlapping chunks (default 300--500 units, 10--30\% overlap) preserving chunk order'',
  and a chunk carries its \<^verbatim>\<open>chunkIndex\<close>, the ``sequence position within source''. So a
  chunk is \<open>chunkSize\<close> characters long, the next one starts \<open>chunkSize - chunkOverlap\<close>
  characters later, and the last one holds what remains.
\<close>

record document =
  pageContent :: string
  chunkIndex :: nat

function split_chunks :: "nat \<Rightarrow> nat \<Rightarrow> string \<Rightarrow> string list" where
  "split_chunks chunkSize chunkOverlap text =
     (if text = [] then []
      else if length text \<le> chunkSize \<or> chunkSize \<le> chunkOverlap then [text]
      else take chunkSize text #
           split_chunks chunkSize chunkOverlap (drop (chunkSize - chunkOverlap) text))"
  by pat_completeness auto
termination
  by (relation "measure (\<lambda>(chunkSize, chunkOverlap, text). length text)") auto

declare split_chunks.simps [simp del]

text \<open>
  Modelled from the spec: \<^verbatim>\<open>splitter.createDocuments([text])\<close>, one document per chunk,
  numbered from 0 in order.
\<close>

definition createDocuments :: "nat \<Rightarrow> nat \<Rightarrow> string \<Rightarrow> document list" where
  "createDocuments chunkSize chunkOverlap text =
     map (\<lambda>(i, c). \<lparr>pageContent = c, chunkIndex = i\<rparr>)
       (enumerate 0 (split_chunks chunkSize chunkOverlap text))"

text \<open>
  \<^verbatim>\<open>
  export async function splitContent(text) {
    const splitter = new RecursiveCharacterTextSplitter({ chunkSize: 300, chunkOverlap: 30 });
    const output = await splitter.createDocuments([text]);
    return output;
  }
  \<close>
\<close>

definition splitContent :: "string \<Rightarrow> document list" where
  "splitContent text = createDocuments 300 30 text"

text \<open>
  The ingestion script embeds every chunk (\<^verbatim>\<open>Promise.all\<close>: one failed embedding makes the
  script throw before anything is stored) and hands the objects
  \<^verbatim>\<open>{ content, embedding }\<close> to \<^verbatim>\<open>storeEmbeddingToSupabase\<close>.
\<close>

record embedded_chunk =
  data_content :: string
  data_embedding :: vector

fun embed_chunks :: "services \<Rightarrow> document list \<Rightarrow> js_error + embedded_chunk list" where
  "embed_chunks sv [] = Inr []"
| "embed_chunks sv (chunk # chunks) =
     (case generateEmbedding sv (pageContent chunk) of
        Inl error \<Rightarrow> Inl error
      | Inr embedding \<Rightarrow>
          (case embed_chunks sv chunks of
             Inl error \<Rightarrow> Inl error
           | Inr data \<Rightarrow>
               Inr (\<lparr>data_content = pageContent chunk, data_embedding = embedding\<rparr> # data)))"

text \<open>
  \<^verbatim>\<open>
  export async function storeEmbeddingToSupabase(data) {
    const { data: insertedData, error } = await supabase
      .from("real_estate").insert(data).select();
    if (error) { console.error("Error inserting data:", error); }
    else { console.log("All embedding saved successfully", insertedData); }
  }
  \<close>
  One \<^verbatim>\<open>insert\<close> of all rows; each row gets the next value of the id sequence. Nothing is
  deleted or looked up first, and a failed insert is only logged.
\<close>

definition storeEmbeddingToSupabase ::
  "services \<Rightarrow> database \<Rightarrow> embedded_chunk list \<Rightarrow> database" where
  "storeEmbeddingToSupabase sv db data =
     (if supabase_reachable sv then
        \<lparr>real_estate = real_estate db @
           map (\<lambda>(i, d). \<lparr>row_id = real_estate_id_seq db + 1 + int i,
                          row_content = data_content d,
                          row_embedding = data_embedding d\<rparr>)
             (enumerate 0 data),
         real_estate_id_seq = real_estate_id_seq db + int (length data)\<rparr>
      else db)"

text \<open>
  \<^verbatim>\<open>
  const content = await fetchContentFromFile();
  const chunks = await splitContent(content);
  const data = await Promise.all(chunks.map(async (chunk) => {
    const embedding = await generateEmbedding(chunk.pageContent);
    return { content: chunk.pageContent, embedding: embedding.data[0].embedding };
  }));
  await storeEmbeddingToSupabase(data);
  \<close>
\<close>

datatype script_error = ReadFailed fs_error | EmbeddingFailed js_error

definition documentEmbedding ::
  "services \<Rightarrow> (string \<rightharpoonup> string) \<Rightarrow> database \<Rightarrow> script_error + database" where
  "documentEmbedding sv files db =
     (case fetchContentFromFile files default_fileName of
        Inl error \<Rightarrow> Inl (ReadFailed error)
      | Inr fileContent \<Rightarrow>
          (case embed_chunks sv (splitContent fileContent) of
             Inl error \<Rightarrow> Inl (EmbeddingFailed error)
           | Inr data \<Rightarrow> Inr (storeEmbeddingToSupabase sv db data)))"


section \<open>Agent runtime\<close>

text \<open>
  Modelled from the spec: the agent runtime. The Python agents
  (\<^verbatim>\<open>agents/real_estate_agents.py\<close>, \<^verbatim>\<open>tools/property_tools.py\<close>) are named by the
  repository's guides but their code is not among the sources. The spec gives the state
  machine ``Start, AwaitingModel, (ToolRequested, ToolExecuting, AwaitingModel)*, Done or
  Failed'', the messages with roles user, assistant and tool, a tool call with
  \<^verbatim>\<open>toolName\<close> and \<^verbatim>\<open>arguments\<close>, the configurable history window N (default 10) and the
  iteration cap K (default 3).
\<close>

datatype agent_role = User | Assistant | Tool

record agent_message =
  msg_role :: agent_role
  msg_content :: string

record tool_call =
  toolName :: string
  arguments :: "(string \<times> string) list"

text \<open>
  Modelled from the spec: the collaborators. The LLM Service answers with a text, with a
  tool call, or not at all (its retries exhausted); a tool returns its output as text or
  an explicit error string.
\<close>

datatype llm_response = TextResponse string | ToolCallResponse tool_call | LLMUnavailable

datatype tool_result = ToolOutput string | ToolFailure string

datatype agent_failure = LoopExceeded | UpstreamUnavailable | ToolExecutionError

datatype agent_phase =
  Start | AwaitingModel | ToolRequested tool_call | ToolExecuting tool_call
  | Done string | Failed agent_failure

record agent_state =
  phase :: agent_phase
  history :: "agent_message list"
  iterations :: nat
  llm_calls :: nat
  tool_errors :: nat

record agent_config =
  system_prompt :: string
  history_window :: nat
  max_iterations :: nat

definition default_agent_config :: "string \<Rightarrow> agent_config" where
  "default_agent_config prompt =
     \<lparr>system_prompt = prompt, history_window = 10, max_iterations = 3\<rparr>"

text \<open>Modelled from the spec: ``trimmed conversation history (last N messages)''.\<close>

definition last_messages :: "nat \<Rightarrow> agent_message list \<Rightarrow> agent_message list" where
  "last_messages n ms = drop (length ms - n) ms"

text \<open>
  Modelled from the spec: \<open>Start\<close>, seeded with the caller's history and the new user
  message.
\<close>

definition initial_agent_state :: "agent_message list \<Rightarrow> string \<Rightarrow> agent_state" where
  "initial_agent_state caller_history user_message =
     \<lparr>phase = Start,
      history = caller_history @ [\<lparr>msg_role = User, msg_content = user_message\<rparr>],
      iterations = 0, llm_calls = 0, tool_errors = 0\<rparr>"

text \<open>
  Modelled from the spec: one transition of the state machine. The LLM Service is a
  function of the number of the call as well as of what it is sent, so that it can answer
  with any sequence of responses; a call stands for the request together with the one
  retry the spec permits. In \<open>AwaitingModel\<close> the response to the call arrives: a
  text ends in \<open>Done\<close> and is appended as an assistant message, a tool call leads to
  \<open>ToolRequested\<close>. A requested tool is executed while fewer than K iterations have been
  made; ``exceeding K transitions to Failed''. The tool's output is appended as a tool
  message; a tool error is appended too, and the second one ends in \<open>Failed\<close>.
\<close>

definition agent_step ::
  "agent_config \<Rightarrow> (nat \<Rightarrow> string \<Rightarrow> agent_message list \<Rightarrow> llm_response) \<Rightarrow>
     (tool_call \<Rightarrow> tool_result) \<Rightarrow> agent_state \<Rightarrow> agent_state" where
  "agent_step cfg llm tools s =
     (case phase s of
        Start \<Rightarrow> s\<lparr>phase := AwaitingModel\<rparr>
      | AwaitingModel \<Rightarrow>
          (case llm (llm_calls s) (system_prompt cfg)
                    (last_messages (history_window cfg) (history s)) of
             TextResponse answer \<Rightarrow>
               s\<lparr>phase := Done answer,
                 history := history s @ [\<lparr>msg_role = Assistant, msg_content = answer\<rparr>],
                 llm_calls := llm_calls s + 1\<rparr>
           | ToolCallResponse call \<Rightarrow>
               s\<lparr>phase := ToolRequested call, llm_calls := llm_calls s + 1\<rparr>
           | LLMUnavailable \<Rightarrow>
               s\<lparr>phase := Failed UpstreamUnavailable, llm_calls := llm_calls s + 1\<rparr>)
      | ToolRequested call \<Rightarrow>
          (if max_iterations cfg \<le> iterations s then s\<lparr>phase := Failed LoopExceeded\<rparr>
           else s\<lparr>phase := ToolExecuting call, iterations := iterations s + 1\<rparr>)
      | ToolExecuting call \<Rightarrow>
          (case tools call of
             ToolOutput out \<Rightarrow>
               s\<lparr>phase := AwaitingModel,
                 history := history s @ [\<lparr>msg_role = Tool, msg_content = out\<rparr>]\<rparr>
           | ToolFailure err \<Rightarrow>
               s\<lparr>phase := (if 2 \<le> tool_errors s + 1 then Failed ToolExecutionError
                            else AwaitingModel),
                 history := history s @ [\<lparr>msg_role = Tool, msg_content = err\<rparr>],
                 tool_errors := tool_errors s + 1\<rparr>)
      | Done answer \<Rightarrow> s
      | Failed failure \<Rightarrow> s)"

fun terminal :: "agent_phase \<Rightarrow> bool" where
  "terminal (Done answer) = True"
| "terminal (Failed failure) = True"
| "terminal p = False"

text \<open>What decreases with every transition: iterations left, then the place in the cycle.\<close>

fun phase_rank :: "agent_phase \<Rightarrow> nat" where
  "phase_rank Start = 3"
| "phase_rank AwaitingModel = 2"
| "phase_rank (ToolRequested call) = 1"
| "phase_rank (ToolExecuting call) = 3"
| "phase_rank (Done answer) = 0"
| "phase_rank (Failed failure) = 0"

definition agent_measure :: "agent_config \<Rightarrow> agent_state \<Rightarrow> nat" where
  "agent_measure cfg s = 3 * (max_iterations cfg - iterations s) + phase_rank (phase s)"

text \<open>Modelled from the spec: one request, the transitions taken until \<open>Done\<close> or \<open>Failed\<close>.\<close>

function agent_run ::
  "agent_config \<Rightarrow> (nat \<Rightarrow> string \<Rightarrow> agent_message list \<Rightarrow> llm_response) \<Rightarrow>
     (tool_call \<Rightarrow> tool_result) \<Rightarrow> agent_state \<Rightarrow> agent_state" where
  "agent_run cfg llm tools s =
     (if terminal (phase s) then s else agent_run cfg llm tools (agent_step cfg llm tools s))"
  by pat_completeness auto
termination
proof (relation "measure (\<lambda>(cfg, llm, tools, s). agent_measure cfg s)")
  show "wf (measure (\<lambda>(cfg, llm, tools, s). agent_measure cfg s))" by simp
next
  fix cfg :: agent_config and llm tools and s :: agent_state
  assume "\<not> terminal (phase s)"
  then have "agent_measure cfg (agent_step cfg llm tools s) < agent_measure cfg s"
    by (cases "phase s")
       (auto simp: agent_step_def agent_measure_def
          split: llm_response.splits tool_result.splits)
  then show "((cfg, llm, tools, agent_step cfg llm tools s), (cfg, llm, tools, s))
      \<in> measure (\<lambda>(cfg, llm, tools, s). agent_measure cfg s)"
    by simp
qed

declare agent_run.simps [simp del]

definition agent_request ::
  "agent_config \<Rightarrow> (nat \<Rightarrow> string \<Rightarrow> agent_message list \<Rightarrow> llm_response) \<Rightarrow>
     (tool_call \<Rightarrow> tool_result) \<Rightarrow> agent_message list \<Rightarrow> string \<Rightarrow> agent_state" where
  "agent_request cfg llm tools caller_history user_message =
     agent_run cfg llm tools (initial_agent_state caller_history user_message)"

text \<open>
  What holds in each state of a request: the calls made so far against the iterations
  made so far.
\<close>

fun agent_invariant :: "nat \<Rightarrow> agent_phase \<Rightarrow> nat \<Rightarrow> nat \<Rightarrow> bool" where
  "agent_invariant K Start its calls = (its = 0 \<and> calls = 0)"
| "agent_invariant K AwaitingModel its calls = (calls = its \<and> its \<le> K)"
| "agent_invariant K (ToolRequested call) its calls = (calls = its + 1 \<and> its \<le> K)"
| "agent_invariant K (ToolExecuting call) its calls = (calls = its \<and> its \<le> K)"
| "agent_invariant K (Done answer) its calls = (calls \<le> K + 1)"
| "agent_invariant K (Failed failure) its calls = (calls \<le> K + 1)"


section \<open>Example data\<close>

text \<open>
  A distance that is the cosine distance on unit vectors, three stored chunks, and
  services whose answers are fixed: the inputs at which the theorems below are evaluated.
\<close>

definition dot_distance :: "vector \<Rightarrow> vector \<Rightarrow> real" where
  "dot_distance a b = 1 - sum_list (map2 (*) a b)"

definition pune_database :: database where
  "pune_database =
     \<lparr>real_estate =
        [\<lparr>row_id = 1, row_content = ''2 BHK in Wakad'', row_embedding = [0.8]\<rparr>,
         \<lparr>row_id = 2, row_content = ''3 BHK in Baner'', row_embedding = [0.9]\<rparr>,
         \<lparr>row_id = 3, row_content = ''Plot in Kharadi'', row_embedding = [0.5]\<rparr>],
      real_estate_id_seq = 3\<rparr>"

definition kharadi_database :: database where
  "kharadi_database =
     \<lparr>real_estate =
        [\<lparr>row_id = 1, row_content = ''Plot in Kharadi'', row_embedding = [0.5]\<rparr>,
         \<lparr>row_id = 2, row_content = ''Shop in Kharadi'', row_embedding = [0.75]\<rparr>],
      real_estate_id_seq = 2\<rparr>"

definition counting_services :: services where
  "counting_services =
     \<lparr>openai_embeddings_create = (\<lambda>text. Inr [1]),
      openai_chat_completions_create =
        (\<lambda>messages. Inr \<lparr>role = ''assistant'',
                           content = (if length messages \<le> 2 then ''first'' else ''again'')\<rparr>),
      supabase_reachable = True,
      pgvector_cosine_distance = dot_distance\<rparr>"

definition embedding_down :: services where
  "embedding_down =
     \<lparr>openai_embeddings_create = (\<lambda>text. Inl ApiError),
      openai_chat_completions_create =
        (\<lambda>messages. Inr \<lparr>role = ''assistant'', content = ''ok''\<rparr>),
      supabase_reachable = True,
      pgvector_cosine_distance = dot_distance\<rparr>"


definition resale_files :: "string \<rightharpoonup> string" where
  "resale_files = [default_fileName \<mapsto> ''2 BHK in Wakad'']"

text \<open>A model that asks for a tool every time it is called, and a one-tool registry.\<close>

definition always_tool :: "nat \<Rightarrow> string \<Rightarrow> agent_message list \<Rightarrow> llm_response" where
  "always_tool n prompt messages =
     ToolCallResponse \<lparr>toolName = ''searchProperties'', arguments = [(''locality'', ''Wakad'')]\<rparr>"

definition catalog_tool :: "tool_call \<Rightarrow> tool_result" where
  "catalog_tool call =
     (if toolName call = ''searchProperties'' then ToolOutput ''2 BHK in Wakad''
      else ToolFailure ''unknown tool'')"


section \<open>Facts about strings\<close>

lemmas lower_eval = str_lower_def lower_char_def ascii_uppercase_def ascii_lowercase_def

lemmas js_eval = match_real_estate_def matchEmbedding_def supabase_rpc_match_real_estate_def
  generateEmbedding_def getChatCompletions_def documentSemanticSearch_def api_search_def
  reply_content_def dot_distance_def pune_database_def kharadi_database_def
  counting_services_def embedding_down_def initial_chatMessages_def

lemma str_in_iff: "str_in w s \<longleftrightarrow> (\<exists>ps ss. s = ps @ w @ ss)"
proof (induction s)
  case Nil
  then show ?case by auto
next
  case (Cons c cs)
  show ?case
  proof
    assume "str_in w (c # cs)"
    then consider "prefix w (c # cs)" | "str_in w cs" by auto
    then show "\<exists>ps ss. c # cs = ps @ w @ ss"
    proof cases
      case 1
      then obtain ss where "c # cs = w @ ss" by (auto simp: prefix_def)
      then have "c # cs = [] @ w @ ss" by simp
      then show ?thesis by blast
    next
      case 2
      then obtain ps ss where "cs = ps @ w @ ss" using Cons.IH by blast
      then have "c # cs = (c # ps) @ w @ ss" by simp
      then show ?thesis by blast
    qed
  next
    assume "\<exists>ps ss. c # cs = ps @ w @ ss"
    then obtain ps ss where e: "c # cs = ps @ w @ ss" by blast
    show "str_in w (c # cs)"
    proof (cases ps)
      case Nil
      then have "prefix w (c # cs)" using e by (simp add: prefix_def)
      then show ?thesis by simp
    next
      case (Cons p ps')
      then have "cs = ps' @ w @ ss" using e by simp
      then have "str_in w cs" using Cons.IH by blast
      then show ?thesis by simp
    qed
  qed
qed

lemma str_in_lower: "str_in w s \<Longrightarrow> str_in (str_lower w) (str_lower s)"
proof -
  assume "str_in w s"
  then obtain ps ss where "s = ps @ w @ ss" using str_in_iff by blast
  then have "str_lower s = str_lower ps @ str_lower w @ str_lower ss"
    by (simp add: str_lower_def)
  then show ?thesis using str_in_iff by blast
qed

lemma budget_keywords_lower: "w \<in> set budget_keywords \<Longrightarrow> str_lower w = w"
  by (auto simp: budget_keywords_def lower_eval)


section \<open>The budget rule of the detail-level heuristic\<close>

text \<open>
  Claim C1. A query in which one of the budget keywords \<open>budget\<close>, \<open>lakh\<close>, \<open>crore\<close>,
  \<open>price\<close>, \<open>cost\<close>, \<open>afford\<close>, \<open>can i buy\<close> occurs, as written or in any mix of upper and
  lower case, is classified \<open>detailed\<close>. The rules that follow the budget rule are
  arbitrary here (\<open>rest\<close>), so no other keyword of the query can change the answer: the
  budget rule is evaluated first.
\<close>

theorem detect_detail_level_budget_first:
  assumes "w \<in> set budget_keywords"
    and "str_in w query \<or> str_in w (str_lower query)"
  shows "detect_detail_level rest query = ''detailed''"
proof -
  have "str_in w (str_lower query)"
    using assms str_in_lower [of w query] budget_keywords_lower [of w] by auto
  then have "list_ex (\<lambda>word. str_in word (str_lower query)) budget_keywords"
    using assms(1) by (auto simp: list_ex_iff)
  then show ?thesis by (simp add: detect_detail_level_def)
qed

theorem detect_detail_level_budget_first_witness:
  "''lakh'' \<in> set budget_keywords
   \<and> (str_in ''lakh'' ''list all flats in Wakad under 50 Lakh''
      \<or> str_in ''lakh'' (str_lower ''list all flats in Wakad under 50 Lakh''))
   \<and> detect_detail_level (\<lambda>q ql. ''brief'') ''list all flats in Wakad under 50 Lakh''
       = ''detailed''"
proof -
  have k: "''lakh'' \<in> set budget_keywords" by (simp add: budget_keywords_def)
  have s: "str_in ''lakh'' ''list all flats in Wakad under 50 Lakh''
      \<or> str_in ''lakh'' (str_lower ''list all flats in Wakad under 50 Lakh'')"
    by (simp add: lower_eval)
  show ?thesis
    using k s detect_detail_level_budget_first [OF k s, of "\<lambda>q ql. ''brief''"] by blast
qed


section \<open>The location post-filter and its fallback\<close>

text \<open>
  Claim C2. With a non-empty list of extracted locations, the post-search filter returns
  exactly the candidates whose text contains, ignoring case, one of the requested
  locations, in their original order; when no candidate does, it returns the whole
  unfiltered candidate list. So a non-empty candidate list never becomes empty through the
  filter.
\<close>

theorem location_filter_fallback:
  assumes "extracted_locations \<noteq> []"
  shows "location_filter extracted_locations results =
           (if \<exists>r \<in> set results. \<exists>loc \<in> set extracted_locations.
                 str_in (str_lower loc) (result_text r)
            then filter (\<lambda>r. \<exists>loc \<in> set extracted_locations.
                   str_in (str_lower loc) (result_text r)) results
            else results)
         \<and> (results \<noteq> [] \<longrightarrow> location_filter extracted_locations results \<noteq> [])"
proof -
  let ?p = "\<lambda>r. \<exists>loc \<in> set extracted_locations. str_in (str_lower loc) (result_text r)"
  have p: "(\<lambda>result. list_ex (\<lambda>loc. str_in loc (result_text result))
              (map str_lower extracted_locations)) = ?p"
    by (auto simp: list_ex_iff)
  have e: "location_filter extracted_locations results =
             (if filter ?p results \<noteq> [] then filter ?p results else results)"
    using assms by (simp add: location_filter_def Let_def p)
  have f: "filter ?p results \<noteq> [] \<longleftrightarrow> (\<exists>r \<in> set results. ?p r)"
    by (simp add: filter_empty_conv)
  show ?thesis unfolding e by (auto simp: filter_empty_conv)
qed

theorem location_filter_fallback_witness:
  "[''Wakad''] \<noteq> []
   \<and> location_filter [''Wakad'']
        [\<lparr>res_text = Some ''Flats in WAKAD''\<rparr>, \<lparr>res_text = Some ''Villas in Kharadi''\<rparr>]
       = [\<lparr>res_text = Some ''Flats in WAKAD''\<rparr>]
   \<and> location_filter [''Baner'']
        [\<lparr>res_text = Some ''Flats in WAKAD''\<rparr>, \<lparr>res_text = None\<rparr>]
       = [\<lparr>res_text = Some ''Flats in WAKAD''\<rparr>, \<lparr>res_text = None\<rparr>]"
proof -
  have n: "[''Wakad''] \<noteq> []" by simp
  have a: "location_filter [''Wakad'']
        [\<lparr>res_text = Some ''Flats in WAKAD''\<rparr>, \<lparr>res_text = Some ''Villas in Kharadi''\<rparr>]
       = [\<lparr>res_text = Some ''Flats in WAKAD''\<rparr>]"
    using location_filter_fallback [OF n,
        of "[\<lparr>res_text = Some ''Flats in WAKAD''\<rparr>, \<lparr>res_text = Some ''Villas in Kharadi''\<rparr>]"]
    by (simp add: result_text_def lower_eval)
  have b: "location_filter [''Baner'']
        [\<lparr>res_text = Some ''Flats in WAKAD''\<rparr>, \<lparr>res_text = None\<rparr>]
       = [\<lparr>res_text = Some ''Flats in WAKAD''\<rparr>, \<lparr>res_text = None\<rparr>]"
    by (simp add: location_filter_def result_text_def lower_eval)
  show ?thesis using n a b by blast
qed


section \<open>How many candidates the endpoint asks the vector store for\<close>

text \<open>
  The statement that the endpoint asks for \<open>max(topK, topK * 2)\<close> candidates fails for a
  request with \<open>top_k = 3\<close>: the call carries \<open>top_k = 10\<close>, not \<open>6\<close>.
\<close>

theorem vector_search_call_counterexample:
  "call_top_k (vector_search_call \<lparr>request_query = ''flats in wakad'', request_top_k = 3\<rparr> [])
     \<noteq> max 3 (3 * 2)"
  by (simp add: vector_search_call_def)

text \<open>
  Claim C3, amended. For a request with result count \<open>top_k\<close>, the endpoint asks the vector
  store for exactly \<open>max(top_k, 10)\<close> candidates, and the location filter is applied to
  what that call returns. This number is \<open>max(top_k, top_k * 2)\<close> for \<open>top_k = 5\<close> only.
\<close>

theorem vector_search_call_top_k:
  "call_top_k (vector_search_call request query_embedding) = max (request_top_k request) 10
   \<and> (call_top_k (vector_search_call request query_embedding)
        = max (request_top_k request) (request_top_k request * 2) \<longleftrightarrow> request_top_k request = 5)
   \<and> retrieve_results vector_store_search request query_embedding extracted_locations
       = location_filter extracted_locations
           (vector_store_search
              \<lparr>call_query_embedding = query_embedding, call_top_k = max (request_top_k request) 10\<rparr>)"
  by (auto simp: vector_search_call_def retrieve_results_def)

theorem vector_search_call_top_k_witness:
  "call_top_k (vector_search_call \<lparr>request_query = ''flats in wakad'', request_top_k = 5\<rparr> []) = 10
   \<and> call_top_k (vector_search_call \<lparr>request_query = ''flats in wakad'', request_top_k = 20\<rparr> []) = 20"
  using vector_search_call_top_k
      [of "\<lparr>request_query = ''flats in wakad'', request_top_k = 5\<rparr>" "[]", THEN conjunct1]
    vector_search_call_top_k
      [of "\<lparr>request_query = ''flats in wakad'', request_top_k = 20\<rparr>" "[]", THEN conjunct1]
  by simp


section \<open>The vector-store search: order, limit and threshold\<close>

lemma sorted_desc_sort_key:
  "sorted_wrt (\<ge>) (map similarity (sort_key (\<lambda>m. - similarity m) ms))"
proof -
  have "sorted (map (\<lambda>m. - similarity m) (sort_key (\<lambda>m. - similarity m) ms))"
    by (rule sorted_sort_key)
  then show ?thesis by (simp add: sorted_wrt_map)
qed

lemma match_real_estate_above_threshold:
  assumes "match_real_estate cosine_distance db query_embedding match_threshold match_count = Inr ms"
    and "m \<in> set ms"
  shows "match_threshold < similarity m"
proof -
  let ?sel = "map (\<lambda>r. \<lparr>match_id = row_id r, match_content = row_content r,
                     similarity = 1 - cosine_distance (row_embedding r) query_embedding\<rparr>)
            (filter (\<lambda>r. 1 - cosine_distance (row_embedding r) query_embedding > match_threshold)
              (real_estate db))"
  have "ms = take (nat match_count) (sort_key (\<lambda>m. - similarity m) ?sel)"
    using assms(1) by (simp add: match_real_estate_def split: if_splits)
  then have "m \<in> set (sort_key (\<lambda>m. - similarity m) ?sel)"
    using assms(2) by (auto dest: in_set_takeD)
  then have "m \<in> set ?sel" by simp
  then show ?thesis by auto
qed

lemma matchEmbedding_above_threshold:
  assumes "m \<in> set (matchEmbedding sv db embedding threshold matchCount)"
  shows "threshold < similarity m"
proof (cases "supabase_rpc_match_real_estate sv db embedding threshold matchCount")
  case (Inl error)
  then show ?thesis using assms by (simp add: matchEmbedding_def)
next
  case (Inr data)
  then have "match_real_estate (pgvector_cosine_distance sv) db embedding threshold matchCount
      = Inr data"
    by (auto simp: supabase_rpc_match_real_estate_def split: if_splits sum.splits)
  moreover have "m \<in> set data" using assms Inr by (simp add: matchEmbedding_def)
  ultimately show ?thesis by (rule match_real_estate_above_threshold)
qed

lemma matchEmbedding_none_above:
  assumes "\<forall>r \<in> set (real_estate db).
      1 - pgvector_cosine_distance sv (row_embedding r) embedding \<le> threshold"
  shows "matchEmbedding sv db embedding threshold matchCount = []"
proof -
  have "filter (\<lambda>r. 1 - pgvector_cosine_distance sv (row_embedding r) embedding > threshold)
      (real_estate db) = []"
    using assms by (auto simp: filter_empty_conv)
  then show ?thesis
    by (simp add: matchEmbedding_def supabase_rpc_match_real_estate_def match_real_estate_def)
qed

text \<open>
  Claim C4. For every query vector, threshold and match count (a count that PostgreSQL
  accepts as a \<^verbatim>\<open>LIMIT\<close>, that is, not negative), \<^verbatim>\<open>match_real_estate\<close> returns a list of at
  most \<open>match_count\<close> rows in descending order of similarity, and so does \<^verbatim>\<open>matchEmbedding\<close>,
  whether the remote call succeeds or not. In particular the matches that
  \<^verbatim>\<open>documentSemanticSearch\<close> retrieves are in descending order and at most 5.
\<close>

theorem match_real_estate_sorted_limited:
  assumes "0 \<le> match_count"
  shows "(\<exists>ms. match_real_estate cosine_distance db query_embedding match_threshold match_count = Inr ms
            \<and> int (length ms) \<le> match_count
            \<and> sorted_wrt (\<ge>) (map similarity ms))
       \<and> int (length (matchEmbedding sv db query_embedding match_threshold match_count)) \<le> match_count
       \<and> sorted_wrt (\<ge>) (map similarity (matchEmbedding sv db query_embedding match_threshold match_count))
       \<and> length (matchEmbedding sv db query_embedding 0.75 5) \<le> 5
       \<and> sorted_wrt (\<ge>) (map similarity (matchEmbedding sv db query_embedding 0.75 5))"
proof -
  have m: "\<And>d thr n. 0 \<le> n \<Longrightarrow>
      \<exists>ms. match_real_estate d db query_embedding thr n = Inr ms
         \<and> int (length ms) \<le> n \<and> sorted_wrt (\<ge>) (map similarity ms)"
    by (simp add: match_real_estate_def sorted_desc_sort_key sorted_wrt_take flip: take_map)
  have e: "\<And>thr n. 0 \<le> n \<Longrightarrow>
      int (length (matchEmbedding sv db query_embedding thr n)) \<le> n
      \<and> sorted_wrt (\<ge>) (map similarity (matchEmbedding sv db query_embedding thr n))"
  proof -
    fix thr :: real and n :: int
    assume n: "0 \<le> n"
    obtain ms where ms: "match_real_estate (pgvector_cosine_distance sv) db query_embedding thr n = Inr ms"
      "int (length ms) \<le> n" "sorted_wrt (\<ge>) (map similarity ms)"
      using m [OF n] by blast
    show "int (length (matchEmbedding sv db query_embedding thr n)) \<le> n
      \<and> sorted_wrt (\<ge>) (map similarity (matchEmbedding sv db query_embedding thr n))"
      using ms n by (simp add: matchEmbedding_def supabase_rpc_match_real_estate_def)
  qed
  have "int (length (matchEmbedding sv db query_embedding 0.75 5)) \<le> 5
      \<and> sorted_wrt (\<ge>) (map similarity (matchEmbedding sv db query_embedding 0.75 5))"
    using e [of 5 "0.75"] by simp
  then show ?thesis using m [OF assms] e [OF assms] by simp
qed

theorem match_real_estate_sorted_limited_witness:
  "(0::int) \<le> 2
   \<and> match_real_estate dot_distance pune_database [1] 0.75 2
       = Inr [\<lparr>match_id = 2, match_content = ''3 BHK in Baner'', similarity = 0.9\<rparr>,
              \<lparr>match_id = 1, match_content = ''2 BHK in Wakad'', similarity = 0.8\<rparr>]
   \<and> int (length (matchEmbedding counting_services pune_database [1] 0.75 2)) \<le> 2"
proof -
  have h: "(0::int) \<le> 2" by simp
  have v: "match_real_estate dot_distance pune_database [1] 0.75 2
       = Inr [\<lparr>match_id = 2, match_content = ''3 BHK in Baner'', similarity = 0.9\<rparr>,
              \<lparr>match_id = 1, match_content = ''2 BHK in Wakad'', similarity = 0.8\<rparr>]"
    by (simp add: js_eval)
  show ?thesis
    using h v match_real_estate_sorted_limited
      [OF h, of dot_distance pune_database "[1]" "0.75" counting_services]
    by blast
qed


section \<open>Failure of the embedding service\<close>

text \<open>
  With an embedding service that throws, \<^verbatim>\<open>documentSemanticSearch\<close> does not pass the
  error on: it returns normally, and what it returns is \<^verbatim>\<open>undefined\<close>.
\<close>

theorem embedding_failure_counterexample:
  "generateEmbedding embedding_down ''flats in wakad'' = Inl ApiError
   \<and> fst (documentSemanticSearch embedding_down pune_database ''flats in wakad'' initial_chatMessages)
       = Inr Undefined"
  by (simp add: js_eval)

text \<open>
  Claim C5, amended. When the embedding call fails, \<^verbatim>\<open>documentSemanticSearch\<close> catches the
  error, leaves \<^verbatim>\<open>chatMessages\<close> untouched, calls neither the vector store nor the model,
  and returns \<^verbatim>\<open>undefined\<close> normally. The \<^verbatim>\<open>/api/search\<close> handler then answers with status
  500 and the body \<^verbatim>\<open>{error: "Something went wrong"}\<close>: the HTTP client gets an error
  response, never a 200 response with an empty answer.
\<close>

theorem embedding_failure_swallowed:
  assumes "generateEmbedding sv query = Inl error"
  shows "documentSemanticSearch sv db query chatMessages = (Inr Undefined, chatMessages)
       \<and> api_search sv db query chatMessages
           = (\<lparr>status = 500, body = ErrorBody ''Something went wrong''\<rparr>, chatMessages)"
  using assms by (simp add: documentSemanticSearch_def api_search_def reply_content_def)

theorem embedding_failure_swallowed_witness:
  "generateEmbedding embedding_down ''flats in wakad'' = Inl ApiError
   \<and> api_search embedding_down pune_database ''flats in wakad'' initial_chatMessages
       = (\<lparr>status = 500, body = ErrorBody ''Something went wrong''\<rparr>, initial_chatMessages)"
proof -
  have h: "generateEmbedding embedding_down ''flats in wakad'' = Inl ApiError"
    by (simp add: js_eval)
  show ?thesis
    using h embedding_failure_swallowed [OF h, of pune_database "initial_chatMessages"] by blast
qed


section \<open>The module-level conversation history\<close>

text \<open>
  The same question asked twice of the same server, against the same database, gets two
  different answers when the model's answer depends on how many messages it is sent: the
  second request sends the first request's messages too.
\<close>

theorem chatMessages_counterexample:
  "fst (api_search counting_services pune_database ''flats in wakad'' initial_chatMessages)
     = \<lparr>status = 200, body = ContentBody ''first''\<rparr>
   \<and> fst (api_search counting_services pune_database ''flats in wakad''
          (snd (api_search counting_services pune_database ''flats in wakad'' initial_chatMessages)))
     = \<lparr>status = 200, body = ContentBody ''again''\<rparr>"
  by (simp add: js_eval)

text \<open>
  Claim C8, amended. The JavaScript query path keeps the module-level list
  \<^verbatim>\<open>chatMessages\<close> across requests. A request only appends to it: the list before the request
  is a prefix of the list after it. When the embedding succeeds, the request appends its
  user message, sends the whole accumulated list to the model, and appends the model's
  reply when there is one. The answer therefore depends on the earlier requests as well as
  on the query; no history is supplied by the caller.
\<close>

theorem chatMessages_accumulate:
  "prefix chatMessages (snd (documentSemanticSearch sv db query chatMessages))
   \<and> (generateEmbedding sv query = Inr queryVector \<longrightarrow>
        (let contents = join ''\<newline>---\<newline>''
                          (map match_content (matchEmbedding sv db queryVector 0.75 5));
             sent = chatMessages @
                      [\<lparr>role = ''user'',
                        content = ''Content: '' @ contents @ ''. Question: '' @ query\<rparr>]
         in documentSemanticSearch sv db query chatMessages =
              (case openai_chat_completions_create sv sent of
                 Inl error \<Rightarrow> (Inr Undefined, sent)
               | Inr response \<Rightarrow> (Inr (Reply response), sent @ [response]))))"
  by (auto simp: documentSemanticSearch_def getChatCompletions_def Let_def
      split: sum.splits)

theorem chatMessages_accumulate_witness:
  "generateEmbedding counting_services ''flats in wakad'' = Inr [1]
   \<and> snd (documentSemanticSearch counting_services pune_database ''flats in wakad'' initial_chatMessages)
     = [systemPrompt,
        \<lparr>role = ''user'', content =
           ''Content: 3 BHK in Baner\<newline>---\<newline>2 BHK in Wakad. Question: flats in wakad''\<rparr>,
        \<lparr>role = ''assistant'', content = ''first''\<rparr>]"
proof -
  have h: "generateEmbedding counting_services ''flats in wakad'' = Inr [1]"
    by (simp add: js_eval)
  have m: "matchEmbedding counting_services pune_database [1] 0.75 5
     = [\<lparr>match_id = 2, match_content = ''3 BHK in Baner'', similarity = 0.9\<rparr>,
        \<lparr>match_id = 1, match_content = ''2 BHK in Wakad'', similarity = 0.8\<rparr>]"
    by (simp add: js_eval)
  have c: "openai_chat_completions_create counting_services [a, b]
     = Inr \<lparr>role = ''assistant'', content = ''first''\<rparr>" for a b
    by (simp add: counting_services_def)
  show ?thesis
    using h m chatMessages_accumulate
      [of "initial_chatMessages" counting_services pune_database "''flats in wakad''" "[1]"]
    by (simp add: c Let_def initial_chatMessages_def)
qed


section \<open>The similarity cutoff of the knowledge query\<close>

text \<open>
  Claim C10. Every match that the knowledge query retrieves has similarity strictly above
  0.75. When no stored chunk is more similar than 0.75 to the query vector, the match list
  is empty, and the model is still called, with the empty context
  \<^verbatim>\<open>Content: . Question: <query>\<close>.
\<close>

theorem similarity_cutoff:
  "(\<forall>m \<in> set (matchEmbedding sv db queryVector 0.75 5). 0.75 < similarity m)
   \<and> ((\<forall>r \<in> set (real_estate db).
          1 - pgvector_cosine_distance sv (row_embedding r) queryVector \<le> 0.75) \<longrightarrow>
        matchEmbedding sv db queryVector 0.75 5 = []
        \<and> (generateEmbedding sv query = Inr queryVector \<longrightarrow>
             documentSemanticSearch sv db query chatMessages =
               (let sent = chatMessages @
                       [\<lparr>role = ''user'', content = ''Content: . Question: '' @ query\<rparr>]
                in case openai_chat_completions_create sv sent of
                     Inl error \<Rightarrow> (Inr Undefined, sent)
                   | Inr response \<Rightarrow> (Inr (Reply response), sent @ [response]))))"
proof -
  have a: "\<forall>m \<in> set (matchEmbedding sv db queryVector 0.75 5). 0.75 < similarity m"
    using matchEmbedding_above_threshold by blast
  have b: "matchEmbedding sv db queryVector 0.75 5 = []"
    if "\<forall>r \<in> set (real_estate db).
          1 - pgvector_cosine_distance sv (row_embedding r) queryVector \<le> 0.75"
    using that by (rule matchEmbedding_none_above)
  show ?thesis
    using a b
    by (auto simp: documentSemanticSearch_def getChatCompletions_def Let_def split: sum.splits)
qed

theorem similarity_cutoff_witness:
  "generateEmbedding counting_services ''flats in wakad'' = Inr [1]
   \<and> matchEmbedding counting_services kharadi_database [1] 0.75 5 = []
   \<and> documentSemanticSearch counting_services kharadi_database ''flats in wakad'' initial_chatMessages
     = (Inr (Reply \<lparr>role = ''assistant'', content = ''first''\<rparr>),
        [systemPrompt,
         \<lparr>role = ''user'', content = ''Content: . Question: flats in wakad''\<rparr>,
         \<lparr>role = ''assistant'', content = ''first''\<rparr>])"
proof -
  have h: "\<forall>r \<in> set (real_estate kharadi_database).
      1 - pgvector_cosine_distance counting_services (row_embedding r) [1] \<le> 0.75"
    by (simp add: kharadi_database_def counting_services_def dot_distance_def)
  have g: "generateEmbedding counting_services ''flats in wakad'' = Inr [1]"
    by (simp add: js_eval)
  have c: "openai_chat_completions_create counting_services [a, b]
     = Inr \<lparr>role = ''assistant'', content = ''first''\<rparr>" for a b
    by (simp add: counting_services_def)
  show ?thesis
    using h g similarity_cutoff
      [of counting_services kharadi_database "[1]" "''flats in wakad''" "initial_chatMessages"]
    by (simp add: c Let_def initial_chatMessages_def)
qed


section \<open>Splitting a document into chunks\<close>

lemmas ingest_eval = documentEmbedding_def fetchContentFromFile_def splitContent_def
  createDocuments_def storeEmbeddingToSupabase_def resale_files_def default_fileName_def

lemma split_chunks_1200:
  assumes "length text = 1200"
  shows "split_chunks 300 30 text =
    [take 300 text, take 300 (drop 270 text), take 300 (drop 540 text),
     take 300 (drop 810 text), drop 1080 text]"
proof -
  have ne: "\<And>n. n < 1200 \<Longrightarrow> drop n text \<noteq> []" using assms by auto
  have "split_chunks 300 30 (drop 1080 text) = [drop 1080 text]"
    using assms ne [of 1080] by (subst split_chunks.simps) simp
  then have "split_chunks 300 30 (drop 810 text) = [take 300 (drop 810 text), drop 1080 text]"
    using assms ne [of 810] by (subst split_chunks.simps) simp
  then have "split_chunks 300 30 (drop 540 text) =
      [take 300 (drop 540 text), take 300 (drop 810 text), drop 1080 text]"
    using assms ne [of 540] by (subst split_chunks.simps) simp
  then have "split_chunks 300 30 (drop 270 text) =
      [take 300 (drop 270 text), take 300 (drop 540 text), take 300 (drop 810 text),
       drop 1080 text]"
    using assms ne [of 270] by (subst split_chunks.simps) simp
  then show ?thesis
    using assms by (subst split_chunks.simps) auto
qed

text \<open>
  Claim C7. A document of 1200 characters, split with chunk size 300 and overlap 30, gives
  exactly 5 chunks with \<open>chunkIndex\<close> 0 to 4, and the last 30 characters of each chunk are
  the first 30 characters of the next.
\<close>

theorem splitContent_1200_chars:
  assumes "length text = 1200"
  shows "length (splitContent text) = 5
       \<and> map chunkIndex (splitContent text) = [0, 1, 2, 3, 4]
       \<and> (\<forall>i < 4.
            drop (length (pageContent (splitContent text ! i)) - 30)
                 (pageContent (splitContent text ! i))
              = take 30 (pageContent (splitContent text ! Suc i))
            \<and> length (take 30 (pageContent (splitContent text ! Suc i))) = 30)"
proof -
  have s: "splitContent text =
      [\<lparr>pageContent = take 300 text, chunkIndex = 0\<rparr>,
       \<lparr>pageContent = take 300 (drop 270 text), chunkIndex = 1\<rparr>,
       \<lparr>pageContent = take 300 (drop 540 text), chunkIndex = 2\<rparr>,
       \<lparr>pageContent = take 300 (drop 810 text), chunkIndex = 3\<rparr>,
       \<lparr>pageContent = drop 1080 text, chunkIndex = 4\<rparr>]"
    by (simp add: splitContent_def createDocuments_def split_chunks_1200 [OF assms])
  have i: "i = 0 \<or> i = 1 \<or> i = 2 \<or> i = 3" if "i < 4" for i :: nat
    using that by arith
  have o: "drop (length (pageContent (splitContent text ! i)) - 30)
                 (pageContent (splitContent text ! i))
              = take 30 (pageContent (splitContent text ! Suc i))
            \<and> length (take 30 (pageContent (splitContent text ! Suc i))) = 30"
    if "i < 4" for i
    using i [OF that] assms by (auto simp: s drop_take min_def)
  show ?thesis using o by (simp add: s)
qed

theorem splitContent_1200_chars_witness:
  "length (concat (replicate 120 ''0123456789'')) = 1200
   \<and> length (splitContent (concat (replicate 120 ''0123456789''))) = 5
   \<and> map chunkIndex (splitContent (concat (replicate 120 ''0123456789''))) = [0, 1, 2, 3, 4]"
proof -
  have h: "length (concat (replicate 120 ''0123456789'')) = 1200"
    by (simp add: length_concat sum_list_replicate)
  show ?thesis using h splitContent_1200_chars [OF h] by blast
qed


section \<open>Ingesting the same document twice\<close>

lemma embed_chunks_contents:
  "embed_chunks sv chunks = Inr data \<Longrightarrow> map data_content data = map pageContent chunks"
proof (induction chunks arbitrary: data)
  case Nil
  then show ?case by simp
next
  case (Cons chunk chunks)
  then show ?case by (auto split: sum.splits)
qed

lemma map_snd_of_enumerate: "map (\<lambda>p. g (snd p)) (enumerate n xs) = map g xs"
  by (induction xs arbitrary: n) auto

lemma storeEmbeddingToSupabase_rows:
  assumes "supabase_reachable sv"
  shows "\<exists>new. real_estate (storeEmbeddingToSupabase sv db data) = real_estate db @ new
           \<and> map row_content new = map data_content data"
proof -
  have "map row_content
          (map (\<lambda>(i, d). \<lparr>row_id = real_estate_id_seq db + 1 + int i,
                          row_content = data_content d,
                          row_embedding = data_embedding d\<rparr>)
             (enumerate 0 data)) = map data_content data"
    by (simp add: case_prod_unfold comp_def map_snd_of_enumerate)
  then show ?thesis using assms by (simp add: storeEmbeddingToSupabase_def)
qed

text \<open>
  Ingesting a one-chunk file into the empty table leaves one row; ingesting the same file
  again leaves two rows with the same content, not one.
\<close>

theorem ingest_twice_counterexample:
  "documentEmbedding counting_services resale_files
       \<lparr>real_estate = [], real_estate_id_seq = 0\<rparr>
     = Inr \<lparr>real_estate =
              [\<lparr>row_id = 1, row_content = ''2 BHK in Wakad'', row_embedding = [1]\<rparr>],
            real_estate_id_seq = 1\<rparr>
   \<and> documentEmbedding counting_services resale_files
       \<lparr>real_estate =
          [\<lparr>row_id = 1, row_content = ''2 BHK in Wakad'', row_embedding = [1]\<rparr>],
        real_estate_id_seq = 1\<rparr>
     = Inr \<lparr>real_estate =
              [\<lparr>row_id = 1, row_content = ''2 BHK in Wakad'', row_embedding = [1]\<rparr>,
               \<lparr>row_id = 2, row_content = ''2 BHK in Wakad'', row_embedding = [1]\<rparr>],
            real_estate_id_seq = 2\<rparr>"
  by (simp add: ingest_eval split_chunks.simps generateEmbedding_def counting_services_def)

text \<open>
  Claim C6, amended. When an ingestion of the file succeeds and the database is reachable,
  a second ingestion of the same file succeeds too and appends a second copy of every
  chunk: the table then holds the rows it had before the first ingestion, followed by the
  file's chunks twice, so its row count has grown by twice the number of chunks. The rows
  of the first ingestion are all still there. No source id is stored and nothing is
  replaced.
\<close>

theorem ingest_twice_appends:
  assumes "documentEmbedding sv files db = Inr db1"
    and "supabase_reachable sv"
  shows "\<exists>db2 fileContent.
           documentEmbedding sv files db1 = Inr db2
         \<and> files default_fileName = Some fileContent
         \<and> map row_content (real_estate db1)
             = map row_content (real_estate db) @ map pageContent (splitContent fileContent)
         \<and> map row_content (real_estate db2)
             = map row_content (real_estate db) @ map pageContent (splitContent fileContent)
                 @ map pageContent (splitContent fileContent)
         \<and> length (real_estate db2)
             = length (real_estate db) + 2 * length (splitContent fileContent)
         \<and> prefix (real_estate db1) (real_estate db2)"
proof -
  from assms(1) obtain fileContent data where
    f: "files default_fileName = Some fileContent" and
    e: "embed_chunks sv (splitContent fileContent) = Inr data" and
    d1: "db1 = storeEmbeddingToSupabase sv db data"
    by (auto simp: documentEmbedding_def fetchContentFromFile_def split: option.splits sum.splits)
  let ?db2 = "storeEmbeddingToSupabase sv db1 data"
  have r2: "documentEmbedding sv files db1 = Inr ?db2"
    using f e by (simp add: documentEmbedding_def fetchContentFromFile_def)
  have c: "map data_content data = map pageContent (splitContent fileContent)"
    using e by (rule embed_chunks_contents)
  obtain new1 where n1: "real_estate db1 = real_estate db @ new1"
      "map row_content new1 = map data_content data"
    using storeEmbeddingToSupabase_rows [OF assms(2), of db data] d1 by auto
  obtain new2 where n2: "real_estate ?db2 = real_estate db1 @ new2"
      "map row_content new2 = map data_content data"
    using storeEmbeddingToSupabase_rows [OF assms(2), of db1 data] by auto
  have l1: "length new1 = length (splitContent fileContent)"
    using n1(2) c by (metis length_map)
  have l2: "length new2 = length (splitContent fileContent)"
    using n2(2) c by (metis length_map)
  have "map row_content (real_estate db1)
             = map row_content (real_estate db) @ map pageContent (splitContent fileContent)"
    using n1 c by simp
  moreover have "map row_content (real_estate ?db2)
             = map row_content (real_estate db) @ map pageContent (splitContent fileContent)
                 @ map pageContent (splitContent fileContent)"
    using n1 n2 c by simp
  moreover have "length (real_estate ?db2)
             = length (real_estate db) + 2 * length (splitContent fileContent)"
    using n1(1) n2(1) l1 l2 by simp
  moreover have "prefix (real_estate db1) (real_estate ?db2)"
    using n2(1) by simp
  ultimately show ?thesis using r2 f by blast
qed

theorem ingest_twice_appends_witness:
  "supabase_reachable counting_services
   \<and> documentEmbedding counting_services resale_files
       \<lparr>real_estate = [], real_estate_id_seq = 0\<rparr>
     = Inr \<lparr>real_estate =
              [\<lparr>row_id = 1, row_content = ''2 BHK in Wakad'', row_embedding = [1]\<rparr>],
            real_estate_id_seq = 1\<rparr>
   \<and> (\<exists>db2 fileContent.
         documentEmbedding counting_services resale_files
             \<lparr>real_estate =
                [\<lparr>row_id = 1, row_content = ''2 BHK in Wakad'', row_embedding = [1]\<rparr>],
              real_estate_id_seq = 1\<rparr> = Inr db2
         \<and> length (real_estate db2) = 0 + 2 * length (splitContent fileContent)
         \<and> resale_files default_fileName = Some fileContent)"
proof -
  have r: "supabase_reachable counting_services" by (simp add: counting_services_def)
  have h: "documentEmbedding counting_services resale_files
       \<lparr>real_estate = [], real_estate_id_seq = 0\<rparr>
     = Inr \<lparr>real_estate =
              [\<lparr>row_id = 1, row_content = ''2 BHK in Wakad'', row_embedding = [1]\<rparr>],
            real_estate_id_seq = 1\<rparr>"
    by (simp add: ingest_eval split_chunks.simps generateEmbedding_def counting_services_def)
  show ?thesis using r h ingest_twice_appends [OF h r] by auto
qed


section \<open>The agent loop terminates within its cap\<close>

lemma agent_step_invariant:
  assumes "agent_invariant (max_iterations cfg) (phase s) (iterations s) (llm_calls s)"
  shows "agent_invariant (max_iterations cfg) (phase (agent_step cfg llm tools s))
           (iterations (agent_step cfg llm tools s)) (llm_calls (agent_step cfg llm tools s))"
  using assms
  by (cases "phase s")
     (auto simp: agent_step_def split: llm_response.splits tool_result.splits)

lemma agent_run_invariant:
  "agent_invariant (max_iterations cfg) (phase s) (iterations s) (llm_calls s) \<Longrightarrow>
   terminal (phase (agent_run cfg llm tools s))
   \<and> agent_invariant (max_iterations cfg) (phase (agent_run cfg llm tools s))
        (iterations (agent_run cfg llm tools s)) (llm_calls (agent_run cfg llm tools s))"
proof (induction cfg llm tools s rule: agent_run.induct)
  case (1 cfg llm tools s)
  show ?case
  proof (cases "terminal (phase s)")
    case True
    then show ?thesis using "1.prems" by (simp add: agent_run.simps)
  next
    case False
    have "agent_run cfg llm tools s = agent_run cfg llm tools (agent_step cfg llm tools s)"
      using False by (simp add: agent_run.simps)
    then show ?thesis
      using "1.IH" [OF False agent_step_invariant [OF "1.prems"]] by simp
  qed
qed

text \<open>
  Claim C9. Whatever the LLM Service answers at each call and whatever the tools return,
  one request of the agent runtime ends in \<open>Done\<close> or in \<open>Failed\<close> (the run is a total
  function), and it makes at most K + 1 calls of the LLM Service, K being the iteration
  cap of the configuration (3 by default).
\<close>

theorem agent_request_bounded:
  "((\<exists>answer. phase (agent_request cfg llm tools caller_history user_message) = Done answer)
    \<or> (\<exists>failure.
          phase (agent_request cfg llm tools caller_history user_message) = Failed failure))
   \<and> llm_calls (agent_request cfg llm tools caller_history user_message)
       \<le> max_iterations cfg + 1"
proof -
  let ?s = "agent_request cfg llm tools caller_history user_message"
  have i: "agent_invariant (max_iterations cfg) (phase (initial_agent_state caller_history user_message))
      (iterations (initial_agent_state caller_history user_message))
      (llm_calls (initial_agent_state caller_history user_message))"
    by (simp add: initial_agent_state_def)
  have r: "terminal (phase ?s)
     \<and> agent_invariant (max_iterations cfg) (phase ?s) (iterations ?s) (llm_calls ?s)"
    unfolding agent_request_def by (rule agent_run_invariant [OF i])
  then show ?thesis by (cases "phase ?s") auto
qed

theorem agent_request_bounded_witness:
  "phase (agent_request (default_agent_config ''buy'') always_tool catalog_tool [] ''flats in wakad'')
     = Failed LoopExceeded
   \<and> llm_calls (agent_request (default_agent_config ''buy'') always_tool catalog_tool []
        ''flats in wakad'') = 4"
  using agent_request_bounded
    [of "default_agent_config ''buy''" always_tool catalog_tool "[]" "''flats in wakad''"]
  by (simp add: agent_request_def initial_agent_state_def agent_run.simps agent_step_def
      default_agent_config_def always_tool_def catalog_tool_def last_messages_def)

end
